theory Spec2Isabelle
  imports Main
begin

section \<open>The plugin decorators of machine/asyncio/plugins/decorators.py\<close>

text \<open>
  The module attaches a \<open>Metadata\<close> object to plugin functions and registers listeners
  on a module-level event emitter. Every decorator mutates Python objects in place, and
  several functions may refer to one \<open>Metadata\<close> instance, so the model has an explicit
  store: function objects and \<open>Metadata\<close> instances live at addresses, and every
  operation takes the store and returns the outcome together with the new store. An
  exception does not undo the assignments made before it, so the store is returned with
  an error as well.
\<close>

subsection \<open>Data\<close>

type_synonym addr = nat
type_synonym fref = nat
type_synonym cref = nat

text \<open>
  The exceptions that arise in the module: \<open>re.error\<close> (with the rejected pattern),
  \<open>ValueError\<close> and \<open>OverflowError\<close> from \<open>re.compile\<close>, and \<open>AttributeError\<close>
  from an attribute assignment on an object that does not allow it.
\<close>

datatype error = ReError string | ValueError | OverflowError | AttributeError

text \<open>
  A compiled \<open>re.Pattern\<close>: its source text (Python's \<open>.pattern\<close>) and the
  flags argument it was compiled with.
\<close>

record re_Pattern =
  pattern :: string
  compiled_with :: int

record PluginActions =
  process :: "string list"
  listen_to :: "re_Pattern list"
  respond_to :: "re_Pattern list"

record Metadata =
  plugin_actions :: PluginActions
  required_settings :: "string list"

text \<open>
  The argument of \<open>required_settings\<close> is annotated \<open>Union[list[str], str]\<close>, but
  the decorator tests it with \<open>isinstance\<close>, so values of other classes are kept.
\<close>

datatype pyvalue = PyList "string list" | PyStr string | PyTuple "string list" | PyNone

text \<open>
  A function object, as the decorators see it: an object whose attributes can be
  assigned. \<open>DecoratedPluginFunc\<close> declares \<open>metadata: Metadata\<close>, so the \<open>metadata\<close>
  entry of the object's attribute dictionary is absent or refers to a \<open>Metadata\<close>
  instance. The rest of the dictionary is kept as names with opaque values.
\<close>

record func_obj =
  metadata :: "addr option"
  other_attrs :: "string \<rightharpoonup> nat"

text \<open>
  A class object has an attribute dictionary of its own, like a function, and a method
  resolution order: \<open>mro\<close> lists the classes after the class itself in which Python
  looks an attribute up.
\<close>

record class_obj = func_obj +
  mro :: "cref list"

text \<open>
  The callables a decorator is applied to (\<open>f\<close>, \<open>f_or_cls\<close>): a function, a class, or a
  bound method of a function. A bound method reads attributes through to its function and
  rejects attribute assignment, as builtin callables do.
\<close>

datatype target = Function fref | Class cref | BoundMethod fref

text \<open>
  Modelled from the spec: the event emitter. The class \<open>AsyncIOEventEmitter\<close> comes
  from the package \<open>pyee\<close>, whose code is not among the sources. The spec describes it
  as a mapping from an event name to the registered callables in registration order, to
  which entries are only added, without deduplication.
\<close>

type_synonym emitter = "string \<Rightarrow> target list"

definition AsyncIOEventEmitter :: emitter where
  "AsyncIOEventEmitter = (\<lambda>_. [])"

text \<open>
  Modelled from the spec: \<open>add_listener\<close> of the emitter (package \<open>pyee\<close>, not among
  the sources) registers the callable for the event name, after the earlier ones.
\<close>

definition add_listener :: "emitter \<Rightarrow> string \<Rightarrow> target \<Rightarrow> emitter" where
  "add_listener em event f = em(event := em event @ [f])"

record state =
  funcs :: "fref \<Rightarrow> func_obj"
  classes :: "cref \<Rightarrow> class_obj"
  heap :: "addr \<Rightarrow> Metadata"
  next_ref :: addr
  ee :: emitter

subsection \<open>The standard library\<close>

text \<open>The values of the flags of Python's \<open>re\<close> that matter here.\<close>

definition IGNORECASE :: int where
  "IGNORECASE = 2"

definition LOCALE :: int where
  "LOCALE = 4"

definition UNICODE :: int where
  "UNICODE = 32"

definition ASCII :: int where
  "ASCII = 256"

text \<open>\<open>flags & flag\<close> for a flag that is the power of two \<open>flag\<close>.\<close>

definition has_flag :: "int \<Rightarrow> int \<Rightarrow> bool" where
  "has_flag flags flag = ((flags div flag) mod 2 = 1)"

text \<open>
  The parser of Python's \<open>re\<close> is not part of the module: \<open>parse regex flags\<close> is its
  outcome on the pattern under the flags. It raises \<open>re.error\<close> for a pattern that is
  not a regular expression and \<open>OverflowError\<close> for a repeat count beyond the limit.
\<close>

datatype parse_outcome = Parsed | SyntaxError | Overflow

text \<open>
  \<open>re.compile(regex, flags)\<close> for a \<open>str\<close> pattern. After parsing, the flags are
  checked: \<open>LOCALE\<close> is refused for a \<open>str\<close> pattern, and \<open>ASCII\<close> together with
  \<open>UNICODE\<close> is refused; both raise \<open>ValueError\<close>.
\<close>

definition re_compile ::
  "(string \<Rightarrow> int \<Rightarrow> parse_outcome) \<Rightarrow> string \<Rightarrow> int \<Rightarrow> error + re_Pattern" where
  "re_compile parse regex flags =
     (case parse regex flags of
        SyntaxError \<Rightarrow> Inl (ReError regex)
      | Overflow \<Rightarrow> Inl OverflowError
      | Parsed \<Rightarrow>
          if has_flag flags LOCALE then Inl ValueError
          else if has_flag flags ASCII \<and> has_flag flags UNICODE then Inl ValueError
          else Inr \<lparr>pattern = regex, compiled_with = flags\<rparr>)"

subsection \<open>Object primitives\<close>

text \<open>The dataclass defaults: every \<open>default_factory\<close> gives an empty list.\<close>

definition PluginActions_init :: PluginActions where
  "PluginActions_init = \<lparr>process = [], listen_to = [], respond_to = []\<rparr>"

definition Metadata_fields :: Metadata where
  "Metadata_fields = \<lparr>plugin_actions = PluginActions_init, required_settings = []\<rparr>"

text \<open>\<open>Metadata()\<close>: a new instance at an address not in use.\<close>

definition Metadata_init :: "state \<Rightarrow> addr \<times> state" where
  "Metadata_init s =
     (next_ref s, s\<lparr>heap := (heap s)(next_ref s := Metadata_fields), next_ref := Suc (next_ref s)\<rparr>)"

text \<open>
  Attribute lookup of \<open>metadata\<close>. On a function it reads the function's own dictionary,
  on a bound method that of its function. On a class it reads the dictionaries of the
  class and of the classes of its method resolution order, and the first entry found
  wins.
\<close>

fun lookup_mro :: "state \<Rightarrow> cref list \<Rightarrow> addr option" where
  "lookup_mro s [] = None"
| "lookup_mro s (c # cs) =
     (case metadata (classes s c) of Some a \<Rightarrow> Some a | None \<Rightarrow> lookup_mro s cs)"

fun lookup :: "state \<Rightarrow> target \<Rightarrow> addr option" where
  "lookup s (Function f) = metadata (funcs s f)"
| "lookup s (BoundMethod f) = metadata (funcs s f)"
| "lookup s (Class c) = lookup_mro s (c # mro (classes s c))"

text \<open>\<open>getattr(f, "metadata", default)\<close>.\<close>

definition getattr_metadata :: "state \<Rightarrow> target \<Rightarrow> addr \<Rightarrow> addr" where
  "getattr_metadata s f dflt = (case lookup s f of Some a \<Rightarrow> a | None \<Rightarrow> dflt)"

text \<open>
  \<open>f.metadata = m\<close> writes the entry of the target's own dictionary; a bound method
  raises \<open>AttributeError\<close>.
\<close>

fun setattr_metadata :: "target \<Rightarrow> addr \<Rightarrow> state \<Rightarrow> error + state" where
  "setattr_metadata (Function f) m s =
     Inr (s\<lparr>funcs := (funcs s)(f := (funcs s f)\<lparr>metadata := Some m\<rparr>)\<rparr>)"
| "setattr_metadata (Class c) m s =
     Inr (s\<lparr>classes := (classes s)(c := (classes s c)\<lparr>metadata := Some m\<rparr>)\<rparr>)"
| "setattr_metadata (BoundMethod f) m s = Inl AttributeError"

text \<open>In-place mutation of the instance at an address.\<close>

definition mutate :: "addr \<Rightarrow> (Metadata \<Rightarrow> Metadata) \<Rightarrow> state \<Rightarrow> state" where
  "mutate m g s = s\<lparr>heap := (heap s)(m := g (heap s m))\<rparr>"

definition process_append :: "string \<Rightarrow> Metadata \<Rightarrow> Metadata" where
  "process_append x md =
     md\<lparr>plugin_actions := (plugin_actions md)\<lparr>process := process (plugin_actions md) @ [x]\<rparr>\<rparr>"

definition listen_to_append :: "re_Pattern \<Rightarrow> Metadata \<Rightarrow> Metadata" where
  "listen_to_append p md =
     md\<lparr>plugin_actions := (plugin_actions md)\<lparr>listen_to := listen_to (plugin_actions md) @ [p]\<rparr>\<rparr>"

definition respond_to_append :: "re_Pattern \<Rightarrow> Metadata \<Rightarrow> Metadata" where
  "respond_to_append p md =
     md\<lparr>plugin_actions := (plugin_actions md)\<lparr>respond_to := respond_to (plugin_actions md) @ [p]\<rparr>\<rparr>"

definition required_settings_extend :: "string list \<Rightarrow> Metadata \<Rightarrow> Metadata" where
  "required_settings_extend xs md = md\<lparr>required_settings := required_settings md @ xs\<rparr>"

definition required_settings_append :: "string \<Rightarrow> Metadata \<Rightarrow> Metadata" where
  "required_settings_append x md = md\<lparr>required_settings := required_settings md @ [x]\<rparr>"

subsection \<open>The inner decorators\<close>

text \<open>
  Each inner function of the source is a function of the variables its closure captures,
  the target and the store. The argument \<open>Metadata()\<close> of \<open>getattr\<close> is evaluated
  before the lookup, whether the target has the attribute or not. When the assignment
  raises, the store keeps the instance just created and nothing else has changed.
\<close>

type_synonym 'a result = "(error + 'a) \<times> state"

definition process_decorator :: "string \<Rightarrow> target \<Rightarrow> state \<Rightarrow> target result" where
  "process_decorator slack_event_type f s =
     (let (d, s1) = Metadata_init s;
          m = getattr_metadata s1 f d
      in case setattr_metadata f m s1 of
           Inl e \<Rightarrow> (Inl e, s1)
         | Inr s2 \<Rightarrow> (Inr f, mutate m (process_append slack_event_type) s2))"

definition listen_to_decorator ::
  "(string \<Rightarrow> int \<Rightarrow> parse_outcome) \<Rightarrow> string \<Rightarrow> int \<Rightarrow> target \<Rightarrow> state \<Rightarrow> target result" where
  "listen_to_decorator parse regex flags f s =
     (let (d, s1) = Metadata_init s;
          m = getattr_metadata s1 f d
      in case setattr_metadata f m s1 of
           Inl e \<Rightarrow> (Inl e, s1)
         | Inr s2 \<Rightarrow>
             (case re_compile parse regex flags of
                Inl e \<Rightarrow> (Inl e, s2)
              | Inr p \<Rightarrow> (Inr f, mutate m (listen_to_append p) s2)))"

definition respond_to_decorator ::
  "(string \<Rightarrow> int \<Rightarrow> parse_outcome) \<Rightarrow> string \<Rightarrow> int \<Rightarrow> target \<Rightarrow> state \<Rightarrow> target result" where
  "respond_to_decorator parse regex flags f s =
     (let (d, s1) = Metadata_init s;
          m = getattr_metadata s1 f d
      in case setattr_metadata f m s1 of
           Inl e \<Rightarrow> (Inl e, s1)
         | Inr s2 \<Rightarrow>
             (case re_compile parse regex flags of
                Inl e \<Rightarrow> (Inl e, s2)
              | Inr p \<Rightarrow> (Inr f, mutate m (respond_to_append p) s2)))"

definition on_decorator :: "string \<Rightarrow> target \<Rightarrow> state \<Rightarrow> target result" where
  "on_decorator event f s = (Inr f, s\<lparr>ee := add_listener (ee s) event f\<rparr>)"

definition required_settings_decorator :: "pyvalue \<Rightarrow> target \<Rightarrow> state \<Rightarrow> target result" where
  "required_settings_decorator settings f_or_cls s =
     (let (d, s1) = Metadata_init s;
          m = getattr_metadata s1 f_or_cls d
      in case setattr_metadata f_or_cls m s1 of
           Inl e \<Rightarrow> (Inl e, s1)
         | Inr s2 \<Rightarrow>
             (Inr f_or_cls,
              (case settings of
                 PyList xs \<Rightarrow> mutate m (required_settings_extend xs) s2
               | PyStr x \<Rightarrow> mutate m (required_settings_append x) s2
               | _ \<Rightarrow> s2)))"

subsection \<open>The decorator factories\<close>

text \<open>
  A factory only builds the closure of its inner function: a value holding the captured
  arguments. An omitted \<open>flags\<close> argument is \<open>None\<close> and stands for the default
  \<open>re.IGNORECASE\<close>. Applying a closure to a target runs the inner function.
\<close>

datatype decorator =
    ProcessDecorator string
  | ListenToDecorator string int
  | RespondToDecorator string int
  | OnDecorator string
  | RequiredSettingsDecorator pyvalue

definition process_factory :: "string \<Rightarrow> decorator" where
  "process_factory slack_event_type = ProcessDecorator slack_event_type"

definition listen_to_factory :: "string \<Rightarrow> int option \<Rightarrow> decorator" where
  "listen_to_factory regex flags =
     ListenToDecorator regex (case flags of None \<Rightarrow> IGNORECASE | Some fl \<Rightarrow> fl)"

definition respond_to_factory :: "string \<Rightarrow> int option \<Rightarrow> decorator" where
  "respond_to_factory regex flags =
     RespondToDecorator regex (case flags of None \<Rightarrow> IGNORECASE | Some fl \<Rightarrow> fl)"

definition on_factory :: "string \<Rightarrow> decorator" where
  "on_factory event = OnDecorator event"


fun apply_decorator ::
  "(string \<Rightarrow> int \<Rightarrow> parse_outcome) \<Rightarrow> decorator \<Rightarrow> target \<Rightarrow> state \<Rightarrow> target result" where
  "apply_decorator parse (ProcessDecorator e) f s = process_decorator e f s"
| "apply_decorator parse (ListenToDecorator regex flags) f s =
     listen_to_decorator parse regex flags f s"
| "apply_decorator parse (RespondToDecorator regex flags) f s =
     respond_to_decorator parse regex flags f s"
| "apply_decorator parse (OnDecorator event) f s = on_decorator event f s"
| "apply_decorator parse (RequiredSettingsDecorator settings) f s =
     required_settings_decorator settings f s"

subsection \<open>Sequences of decorations\<close>


text \<open>
  Any sequence of decorations of any targets. The store goes on after an exception, as it
  does when the caller catches it.
\<close>

fun run ::
  "(string \<Rightarrow> int \<Rightarrow> parse_outcome) \<Rightarrow> (decorator \<times> target) list \<Rightarrow> state \<Rightarrow> state" where
  "run parse [] s = s"
| "run parse ((d, f) # ops) s = run parse ops (snd (apply_decorator parse d f s))"








text \<open>Whether the target allows \<open>f.metadata = ...\<close>.\<close>

fun settable :: "target \<Rightarrow> bool" where
  "settable (BoundMethod f) = False"
| "settable _ = True"

subsection \<open>Observations and the store invariant\<close>

text \<open>
  What a reader of \<open>f.metadata\<close> sees: the instance that attribute lookup finds. For a
  target on which lookup finds nothing the view is the empty record, and \<open>has_metadata\<close>
  (Python's \<open>hasattr\<close>) tells the two apart. \<open>own_metadata\<close> is the entry of the
  target's own dictionary.
\<close>

definition has_metadata :: "state \<Rightarrow> target \<Rightarrow> bool" where
  "has_metadata s f = (lookup s f \<noteq> None)"

definition metadata_view :: "state \<Rightarrow> target \<Rightarrow> Metadata" where
  "metadata_view s f = (case lookup s f of None \<Rightarrow> Metadata_fields | Some a \<Rightarrow> heap s a)"


text \<open>
  Python never hands out the address of a live object for a new one. In the model this
  is an invariant of the store: every address a function refers to is below the
  allocation counter, and so is every address a class refers to.
\<close>

definition wf_state :: "state \<Rightarrow> bool" where
  "wf_state s = (\<forall>g a. metadata (funcs s g) = Some a \<longrightarrow> a < next_ref s)"

definition wf_classes :: "state \<Rightarrow> bool" where
  "wf_classes s = (\<forall>c a. metadata (classes s c) = Some a \<longrightarrow> a < next_ref s)"

text \<open>
  The store when the module has been imported and nothing is decorated yet; no class
  has a base class.
\<close>

definition module_state :: state where
  "module_state =
     \<lparr>funcs = (\<lambda>_. \<lparr>metadata = None, other_attrs = Map.empty\<rparr>),
      classes = (\<lambda>_. \<lparr>metadata = None, other_attrs = Map.empty, mro = []\<rparr>),
      heap = (\<lambda>_. Metadata_fields),
      next_ref = 0,
      ee = AsyncIOEventEmitter\<rparr>"


text \<open>
  A parser for the examples. It rejects the lone parenthesis, as Python does, and parses
  every other pattern used below.
\<close>

definition example_parse :: "string \<Rightarrow> int \<Rightarrow> parse_outcome" where
  "example_parse regex flags = (if regex = ''('' then SyntaxError else Parsed)"

text \<open>
  Two auxiliary notions for the proofs. Every decorator that attaches metadata starts with
  \<open>f.metadata = getattr(f, "metadata", Metadata())\<close>: \<open>target_ref\<close> is the instance
  that statement assigns and \<open>attached\<close> is the store after it (for a bound method, the
  store when the assignment raises).
\<close>

definition target_ref :: "target \<Rightarrow> state \<Rightarrow> addr" where
  "target_ref f s = (case lookup s f of Some a \<Rightarrow> a | None \<Rightarrow> next_ref s)"

fun attached :: "target \<Rightarrow> state \<Rightarrow> state" where
  "attached (Function f) s =
     s\<lparr>heap := (heap s)(next_ref s := Metadata_fields),
       next_ref := Suc (next_ref s),
       funcs := (funcs s)(f := (funcs s f)\<lparr>metadata := Some (target_ref (Function f) s)\<rparr>)\<rparr>"
| "attached (Class c) s =
     s\<lparr>heap := (heap s)(next_ref s := Metadata_fields),
       next_ref := Suc (next_ref s),
       classes := (classes s)(c := (classes s c)\<lparr>metadata := Some (target_ref (Class c) s)\<rparr>)\<rparr>"
| "attached (BoundMethod f) s =
     s\<lparr>heap := (heap s)(next_ref s := Metadata_fields), next_ref := Suc (next_ref s)\<rparr>"

section \<open>Properties\<close>

subsection \<open>The common first statement\<close>

lemma wf_module_state: "wf_state module_state"
  by (simp add: wf_state_def module_state_def)

lemma wf_classes_module_state: "wf_classes module_state"
  by (simp add: wf_classes_def module_state_def)

lemma wf_ref_neq: "wf_state s \<Longrightarrow> metadata (funcs s g) = Some a \<Longrightarrow> a \<noteq> next_ref s"
  by (auto simp: wf_state_def)

lemma lookup_mro_cong: "classes s' = classes s \<Longrightarrow> lookup_mro s' cs = lookup_mro s cs"
  by (induction cs) (simp_all split: option.splits)

lemma lookup_cong: "funcs s' = funcs s \<Longrightarrow> classes s' = classes s \<Longrightarrow> lookup s' f = lookup s f"
  by (cases f) (simp_all add: lookup_mro_cong[of s' s] split: option.splits)

lemma lookup_mro_source: "lookup_mro s cs = Some a \<Longrightarrow> \<exists>c. metadata (classes s c) = Some a"
  by (induction cs) (auto split: option.splits)

lemma lookup_function_unused: "wf_state s \<Longrightarrow> lookup s (Function f) \<noteq> Some (next_ref s)"
  by (auto simp: wf_state_def)

lemma lookup_class_unused: "wf_classes s \<Longrightarrow> lookup s (Class c) \<noteq> Some (next_ref s)"
proof
  assume wf: "wf_classes s" and "lookup s (Class c) = Some (next_ref s)"
  then have "lookup_mro s (c # mro (classes s c)) = Some (next_ref s)"
    by simp
  then obtain c' where "metadata (classes s c') = Some (next_ref s)"
    using lookup_mro_source by blast
  with wf show False
    by (auto simp: wf_classes_def)
qed

lemmas prim_defs = Metadata_init_def Let_def

lemma getattr_after_init:
  "getattr_metadata (s\<lparr>heap := h, next_ref := n\<rparr>) f (next_ref s) = target_ref f s"
  by (simp add: getattr_metadata_def target_ref_def lookup_cong[of "s\<lparr>heap := h, next_ref := n\<rparr>" s])

lemma setattr_after_init:
  "setattr_metadata f (target_ref f s)
     (s\<lparr>heap := (heap s)(next_ref s := Metadata_fields), next_ref := Suc (next_ref s)\<rparr>) =
   (if settable f then Inr (attached f s) else Inl AttributeError)"
  by (cases f) simp_all

lemma attached_unsettable:
  "\<not> settable f \<Longrightarrow>
   attached f s = s\<lparr>heap := (heap s)(next_ref s := Metadata_fields), next_ref := Suc (next_ref s)\<rparr>"
  by (cases f) simp_all

lemma process_decorator_eq:
  "process_decorator e f s =
     (if settable f
      then (Inr f, mutate (target_ref f s) (process_append e) (attached f s))
      else (Inl AttributeError, attached f s))"
  by (simp add: process_decorator_def prim_defs getattr_after_init setattr_after_init
      attached_unsettable)

lemma listen_to_decorator_eq:
  "listen_to_decorator parse regex flags f s =
     (if settable f
      then (case re_compile parse regex flags of
              Inl e \<Rightarrow> (Inl e, attached f s)
            | Inr p \<Rightarrow> (Inr f, mutate (target_ref f s) (listen_to_append p) (attached f s)))
      else (Inl AttributeError, attached f s))"
  by (simp add: listen_to_decorator_def prim_defs getattr_after_init setattr_after_init
      attached_unsettable split: sum.splits pyvalue.splits)

lemma respond_to_decorator_eq:
  "respond_to_decorator parse regex flags f s =
     (if settable f
      then (case re_compile parse regex flags of
              Inl e \<Rightarrow> (Inl e, attached f s)
            | Inr p \<Rightarrow> (Inr f, mutate (target_ref f s) (respond_to_append p) (attached f s)))
      else (Inl AttributeError, attached f s))"
  by (simp add: respond_to_decorator_def prim_defs getattr_after_init setattr_after_init
      attached_unsettable split: sum.splits pyvalue.splits)

lemma required_settings_decorator_eq:
  "required_settings_decorator settings f s =
     (if settable f
      then (Inr f, case settings of
               PyList xs \<Rightarrow> mutate (target_ref f s) (required_settings_extend xs) (attached f s)
             | PyStr x \<Rightarrow> mutate (target_ref f s) (required_settings_append x) (attached f s)
             | _ \<Rightarrow> attached f s)
      else (Inl AttributeError, attached f s))"
  by (simp add: required_settings_decorator_def prim_defs getattr_after_init setattr_after_init
      attached_unsettable split: sum.splits pyvalue.splits)

lemma lookup_mutate: "lookup (mutate a g s) f = lookup s f"
  by (rule lookup_cong) (simp_all add: mutate_def)

lemma lookup_attached: "settable f \<Longrightarrow> lookup (attached f s) f = Some (target_ref f s)"
  by (cases f) simp_all

lemma heap_attached:
  "heap (attached f s) = (heap s)(next_ref s := Metadata_fields)"
  by (cases f) simp_all

lemma next_ref_attached: "next_ref (attached f s) = Suc (next_ref s)"
  by (cases f) simp_all

lemma has_metadata_attached: "settable f \<Longrightarrow> has_metadata (attached f s) f"
  by (simp add: has_metadata_def lookup_attached)

lemma has_metadata_mutate: "has_metadata (mutate a g s) f = has_metadata s f"
  by (simp add: has_metadata_def lookup_mutate)

lemma target_ref_used: "lookup s f \<noteq> Some (next_ref s) \<Longrightarrow> lookup s f \<noteq> None \<Longrightarrow> target_ref f s \<noteq> next_ref s"
  by (auto simp: target_ref_def)

lemma view_attached:
  "settable f \<Longrightarrow> lookup s f \<noteq> Some (next_ref s) \<Longrightarrow>
   metadata_view (attached f s) f = metadata_view s f"
  by (auto simp: metadata_view_def lookup_attached heap_attached target_ref_def
      split: option.splits)

lemma heap_mutate: "heap (mutate a g s) = (heap s)(a := g (heap s a))"
  by (simp add: mutate_def)

lemma view_mutate_attached:
  "settable f \<Longrightarrow> lookup s f \<noteq> Some (next_ref s) \<Longrightarrow>
   metadata_view (mutate (target_ref f s) g (attached f s)) f = g (metadata_view s f)"
  by (auto simp: metadata_view_def lookup_mutate lookup_attached heap_attached heap_mutate
      target_ref_def split: option.splits)

lemma wf_attached: "wf_state s \<Longrightarrow> wf_state (attached f s)"
  by (cases f) (auto simp: wf_state_def target_ref_def less_Suc_eq split: option.splits)

lemma wf_mutate: "wf_state (mutate a g s) = wf_state s"
  by (simp add: wf_state_def mutate_def)



lemma ee_attached: "ee (attached f s) = ee s"
  by (cases f) simp_all

lemma ee_mutate: "ee (mutate a g s) = ee s"
  by (simp add: mutate_def)







lemma wf_ee_update: "wf_state (s\<lparr>ee := em\<rparr>) = wf_state s"
  by (simp add: wf_state_def)


lemma wf_apply_decorator: "wf_state s \<Longrightarrow> wf_state (snd (apply_decorator parse d f s))"
  by (cases d)
     (auto simp: process_decorator_eq listen_to_decorator_eq respond_to_decorator_eq
        required_settings_decorator_eq on_decorator_def wf_mutate wf_attached wf_ee_update
        split: pyvalue.splits sum.splits)


lemma undecorated_module_state: "\<not> has_metadata module_state (Function f)"
  by (simp add: has_metadata_def module_state_def)

lemma view_undecorated: "\<not> has_metadata s f \<Longrightarrow> metadata_view s f = Metadata_fields"
  by (simp add: has_metadata_def metadata_view_def)

lemma has_flag_examples:
  "\<not> has_flag IGNORECASE LOCALE" "\<not> has_flag IGNORECASE ASCII" "has_flag 288 ASCII"
  "has_flag 288 UNICODE" "\<not> has_flag 288 LOCALE" "has_flag 4 LOCALE"
  by (simp_all add: has_flag_def IGNORECASE_def LOCALE_def ASCII_def UNICODE_def)

lemma re_compile_default:
  "parse regex IGNORECASE = Parsed \<Longrightarrow>
   re_compile parse regex IGNORECASE = Inr \<lparr>pattern = regex, compiled_with = IGNORECASE\<rparr>"
  by (simp add: re_compile_def has_flag_examples)

declare attached.simps [simp del]

lemma view_mutate_attached_function:
  "wf_state s \<Longrightarrow>
   metadata_view (mutate (target_ref (Function f) s) g (attached (Function f) s)) (Function f)
     = g (metadata_view s (Function f))"
  by (rule view_mutate_attached) (simp, rule lookup_function_unused)

lemma view_attached_function:
  "wf_state s \<Longrightarrow> metadata_view (attached (Function f) s) (Function f) = metadata_view s (Function f)"
  by (rule view_attached) (simp, rule lookup_function_unused)

lemma view_mutate_attached_class:
  "wf_classes s \<Longrightarrow>
   metadata_view (mutate (target_ref (Class c) s) g (attached (Class c) s)) (Class c)
     = g (metadata_view s (Class c))"
  by (rule view_mutate_attached) (simp, rule lookup_class_unused)

lemma view_attached_class:
  "wf_classes s \<Longrightarrow> metadata_view (attached (Class c) s) (Class c) = metadata_view s (Class c)"
  by (rule view_attached) (simp, rule lookup_class_unused)

lemma process_step:
  "wf_state s \<Longrightarrow>
   metadata_view (snd (apply_decorator parse (process_factory e) (Function f) s)) (Function f) =
     process_append e (metadata_view s (Function f))"
  by (simp add: process_factory_def process_decorator_eq view_mutate_attached_function)

subsection \<open>process\<close>

text \<open>
  C1. For every function \<open>f\<close> and every event-type string \<open>e\<close>, applying the decorator
  returned by \<open>process(e)\<close> to \<open>f\<close> returns \<open>f\<close>, and afterwards \<open>f\<close> has metadata
  whose \<open>plugin_actions.process\<close> is the list it was before (empty when \<open>f\<close> had no
  metadata) followed by \<open>e\<close>. No string is rejected: the outcome is never an error.
  Applying \<open>process("message")\<close> twice appends the entry twice, so on a function not
  decorated before the list is \<open>["message", "message"]\<close>.
\<close>

theorem process_appends_event_type:
  assumes "wf_state s"
  shows "fst (apply_decorator parse (process_factory e) (Function f) s) = Inr (Function f)
       \<and> has_metadata (snd (apply_decorator parse (process_factory e) (Function f) s)) (Function f)
       \<and> process (plugin_actions (metadata_view
             (snd (apply_decorator parse (process_factory e) (Function f) s)) (Function f)))
           = process (plugin_actions (metadata_view s (Function f))) @ [e]
       \<and> process (plugin_actions (metadata_view
             (snd (apply_decorator parse (process_factory ''message'') (Function f)
                (snd (apply_decorator parse (process_factory ''message'') (Function f) s))))
             (Function f)))
           = process (plugin_actions (metadata_view s (Function f))) @ [''message'', ''message'']
       \<and> (\<not> has_metadata s (Function f) \<longrightarrow>
            process (plugin_actions (metadata_view
              (snd (apply_decorator parse (process_factory ''message'') (Function f)
                 (snd (apply_decorator parse (process_factory ''message'') (Function f) s))))
              (Function f)))
            = [''message'', ''message''])"
proof -
  let ?ap = "\<lambda>x t. snd (apply_decorator parse (process_factory x) (Function f) t)"
  have one: "process (plugin_actions (metadata_view (?ap x t) (Function f)))
               = process (plugin_actions (metadata_view t (Function f))) @ [x]"
    if "wf_state t" for x t
    using that by (simp add: process_step process_append_def)
  have wf1: "wf_state (?ap ''message'' s)"
    using assms by (rule wf_apply_decorator)
  have two: "process (plugin_actions (metadata_view (?ap ''message'' (?ap ''message'' s)) (Function f)))
               = process (plugin_actions (metadata_view s (Function f))) @ [''message'', ''message'']"
    using one[OF wf1] one[OF assms] by simp
  have fresh: "process (plugin_actions (metadata_view s (Function f))) = []"
    if "\<not> has_metadata s (Function f)"
    using that by (simp add: view_undecorated Metadata_fields_def PluginActions_init_def)
  have ret: "fst (apply_decorator parse (process_factory e) (Function f) s) = Inr (Function f)"
    by (simp add: process_factory_def process_decorator_eq)
  have att: "has_metadata (?ap e s) (Function f)"
    by (simp add: process_factory_def process_decorator_eq has_metadata_mutate has_metadata_attached)
  show ?thesis
    using ret att one[OF assms] two fresh by simp
qed

theorem process_appends_event_type_witness:
  "wf_state module_state \<and> \<not> has_metadata module_state (Function 7)
   \<and> fst (apply_decorator example_parse (process_factory ''no_such_event'') (Function 7) module_state)
       = Inr (Function 7)
   \<and> process (plugin_actions (metadata_view
        (snd (apply_decorator example_parse (process_factory ''message'') (Function 7)
           (snd (apply_decorator example_parse (process_factory ''message'') (Function 7)
              module_state)))) (Function 7)))
      = [''message'', ''message'']"
  using process_appends_event_type[OF wf_module_state, of example_parse "''no_such_event''" 7]
    wf_module_state undecorated_module_state[of 7]
  by blast

lemma listen_to_step:
  "wf_state s \<Longrightarrow> re_compile parse regex flags = Inr p \<Longrightarrow>
   metadata_view (snd (listen_to_decorator parse regex flags (Function f) s)) (Function f) =
     listen_to_append p (metadata_view s (Function f))"
  by (simp add: listen_to_decorator_eq view_mutate_attached_function)

lemma respond_to_step:
  "wf_state s \<Longrightarrow> re_compile parse regex flags = Inr p \<Longrightarrow>
   metadata_view (snd (respond_to_decorator parse regex flags (Function f) s)) (Function f) =
     respond_to_append p (metadata_view s (Function f))"
  by (simp add: respond_to_decorator_eq view_mutate_attached_function)

lemma listen_to_default: "listen_to_factory regex None = ListenToDecorator regex IGNORECASE"
  by (simp add: listen_to_factory_def)

lemma respond_to_default: "respond_to_factory regex None = RespondToDecorator regex IGNORECASE"
  by (simp add: respond_to_factory_def)

subsection \<open>listen_to and respond_to\<close>

text \<open>
  C2. For a pattern \<open>r\<close> that is a regular expression (the parser accepts it under the
  default flags), applying the decorator returned by \<open>listen_to(r)\<close> with \<open>flags\<close>
  omitted returns the target and appends to the target's \<open>plugin_actions.listen_to\<close> one
  pattern compiled with \<open>re.IGNORECASE\<close> whose source text is \<open>r\<close>; \<open>respond_to(r)\<close>
  does the same on \<open>plugin_actions.respond_to\<close>.
\<close>

theorem listen_to_respond_to_append_compiled:
  assumes "wf_state s" and "parse r IGNORECASE = Parsed"
  shows "fst (apply_decorator parse (listen_to_factory r None) (Function f) s) = Inr (Function f)
       \<and> listen_to (plugin_actions (metadata_view
             (snd (apply_decorator parse (listen_to_factory r None) (Function f) s)) (Function f)))
           = listen_to (plugin_actions (metadata_view s (Function f)))
             @ [\<lparr>pattern = r, compiled_with = IGNORECASE\<rparr>]
       \<and> pattern (last (listen_to (plugin_actions (metadata_view
             (snd (apply_decorator parse (listen_to_factory r None) (Function f) s)) (Function f)))))
           = r
       \<and> fst (apply_decorator parse (respond_to_factory r None) (Function f) s) = Inr (Function f)
       \<and> respond_to (plugin_actions (metadata_view
             (snd (apply_decorator parse (respond_to_factory r None) (Function f) s)) (Function f)))
           = respond_to (plugin_actions (metadata_view s (Function f)))
             @ [\<lparr>pattern = r, compiled_with = IGNORECASE\<rparr>]
       \<and> pattern (last (respond_to (plugin_actions (metadata_view
             (snd (apply_decorator parse (respond_to_factory r None) (Function f) s)) (Function f)))))
           = r"
proof -
  have c: "re_compile parse r IGNORECASE = Inr \<lparr>pattern = r, compiled_with = IGNORECASE\<rparr>"
    using assms(2) by (rule re_compile_default)
  have l: "metadata_view (snd (apply_decorator parse (listen_to_factory r None) (Function f) s))
             (Function f)
             = listen_to_append \<lparr>pattern = r, compiled_with = IGNORECASE\<rparr>
                 (metadata_view s (Function f))"
    using listen_to_step[OF assms(1) c] by (simp add: listen_to_default)
  have r: "metadata_view (snd (apply_decorator parse (respond_to_factory r None) (Function f) s))
             (Function f)
             = respond_to_append \<lparr>pattern = r, compiled_with = IGNORECASE\<rparr>
                 (metadata_view s (Function f))"
    using respond_to_step[OF assms(1) c] by (simp add: respond_to_default)
  have lret: "fst (apply_decorator parse (listen_to_factory r None) (Function f) s) = Inr (Function f)"
    by (simp add: listen_to_default listen_to_decorator_eq c)
  have rret: "fst (apply_decorator parse (respond_to_factory r None) (Function f) s) = Inr (Function f)"
    by (simp add: respond_to_default respond_to_decorator_eq c)
  show ?thesis
    unfolding l r using lret rret
    by (simp add: listen_to_append_def respond_to_append_def)
qed

theorem listen_to_respond_to_append_compiled_witness:
  "wf_state module_state \<and> example_parse ''deploy [a-z]+'' IGNORECASE = Parsed
   \<and> listen_to (plugin_actions (metadata_view
        (snd (apply_decorator example_parse (listen_to_factory ''deploy [a-z]+'' None) (Function 3)
           module_state)) (Function 3)))
      = [\<lparr>pattern = ''deploy [a-z]+'', compiled_with = 2\<rparr>]
   \<and> respond_to (plugin_actions (metadata_view
        (snd (apply_decorator example_parse (respond_to_factory ''deploy [a-z]+'' None) (Function 3)
           module_state)) (Function 3)))
      = [\<lparr>pattern = ''deploy [a-z]+'', compiled_with = 2\<rparr>]"
proof -
  have empty: "listen_to (plugin_actions (metadata_view module_state (Function 3))) = []"
              "respond_to (plugin_actions (metadata_view module_state (Function 3))) = []"
    by (simp_all add: view_undecorated undecorated_module_state Metadata_fields_def
        PluginActions_init_def)
  have p: "example_parse ''deploy [a-z]+'' IGNORECASE = Parsed"
    by (simp add: example_parse_def)
  show ?thesis
    using listen_to_respond_to_append_compiled
            [of module_state example_parse "''deploy [a-z]+''" 3]
    by (simp add: empty wf_module_state p) (simp add: IGNORECASE_def)
qed

subsection \<open>Errors\<close>









subsection \<open>respond_to and listen_to on one function\<close>

lemma listen_to_append_fields:
  "listen_to (plugin_actions (listen_to_append p md)) = listen_to (plugin_actions md) @ [p]"
  "respond_to (plugin_actions (listen_to_append p md)) = respond_to (plugin_actions md)"
  "process (plugin_actions (listen_to_append p md)) = process (plugin_actions md)"
  "required_settings (listen_to_append p md) = required_settings md"
  by (simp_all add: listen_to_append_def)

lemma respond_to_append_fields:
  "respond_to (plugin_actions (respond_to_append p md)) = respond_to (plugin_actions md) @ [p]"
  "listen_to (plugin_actions (respond_to_append p md)) = listen_to (plugin_actions md)"
  "process (plugin_actions (respond_to_append p md)) = process (plugin_actions md)"
  "required_settings (respond_to_append p md) = required_settings md"
  by (simp_all add: respond_to_append_def)

lemma Metadata_fields_empty:
  "process (plugin_actions Metadata_fields) = []"
  "listen_to (plugin_actions Metadata_fields) = []"
  "respond_to (plugin_actions Metadata_fields) = []"
  "required_settings Metadata_fields = []"
  by (simp_all add: Metadata_fields_def PluginActions_init_def)

text \<open>
  C4. Applying \<open>respond_to("hello")\<close> and \<open>listen_to("bye")\<close> to a function \<open>f\<close>, in
  either order, appends the pattern of \<open>"bye"\<close> to \<open>f\<close>'s \<open>listen_to\<close> list and the
  pattern of \<open>"hello"\<close> to its \<open>respond_to\<close> list; the \<open>process\<close> list and the required
  settings stay as they were. For a function without earlier metadata the two lists hold
  exactly that one pattern each. Each of the two decorators alone leaves the other
  pattern list and the \<open>process\<close> list unchanged.
\<close>

theorem respond_to_listen_to_independent:
  assumes "wf_state s" and "parse ''hello'' IGNORECASE = Parsed"
    and "parse ''bye'' IGNORECASE = Parsed"
    and "t = snd (apply_decorator parse (listen_to_factory ''bye'' None) (Function f)
                (snd (apply_decorator parse (respond_to_factory ''hello'' None) (Function f) s)))
       \<or> t = snd (apply_decorator parse (respond_to_factory ''hello'' None) (Function f)
                (snd (apply_decorator parse (listen_to_factory ''bye'' None) (Function f) s)))"
  shows "listen_to (plugin_actions (metadata_view t (Function f)))
           = listen_to (plugin_actions (metadata_view s (Function f)))
             @ [\<lparr>pattern = ''bye'', compiled_with = IGNORECASE\<rparr>]
       \<and> respond_to (plugin_actions (metadata_view t (Function f)))
           = respond_to (plugin_actions (metadata_view s (Function f)))
             @ [\<lparr>pattern = ''hello'', compiled_with = IGNORECASE\<rparr>]
       \<and> process (plugin_actions (metadata_view t (Function f)))
           = process (plugin_actions (metadata_view s (Function f)))
       \<and> required_settings (metadata_view t (Function f))
           = required_settings (metadata_view s (Function f))
       \<and> (\<not> has_metadata s (Function f) \<longrightarrow>
            listen_to (plugin_actions (metadata_view t (Function f)))
              = [\<lparr>pattern = ''bye'', compiled_with = IGNORECASE\<rparr>]
          \<and> respond_to (plugin_actions (metadata_view t (Function f)))
              = [\<lparr>pattern = ''hello'', compiled_with = IGNORECASE\<rparr>]
          \<and> process (plugin_actions (metadata_view t (Function f))) = [])
       \<and> respond_to (plugin_actions (metadata_view
             (snd (apply_decorator parse (listen_to_factory ''bye'' None) (Function f) s)) (Function f)))
           = respond_to (plugin_actions (metadata_view s (Function f)))
       \<and> process (plugin_actions (metadata_view
             (snd (apply_decorator parse (listen_to_factory ''bye'' None) (Function f) s)) (Function f)))
           = process (plugin_actions (metadata_view s (Function f)))
       \<and> listen_to (plugin_actions (metadata_view
             (snd (apply_decorator parse (respond_to_factory ''hello'' None) (Function f) s))
             (Function f)))
           = listen_to (plugin_actions (metadata_view s (Function f)))
       \<and> process (plugin_actions (metadata_view
             (snd (apply_decorator parse (respond_to_factory ''hello'' None) (Function f) s))
             (Function f)))
           = process (plugin_actions (metadata_view s (Function f)))"
proof -
  let ?F = "Function f"
  let ?L = "\<lambda>u. snd (apply_decorator parse (listen_to_factory ''bye'' None) ?F u)"
  let ?R = "\<lambda>u. snd (apply_decorator parse (respond_to_factory ''hello'' None) ?F u)"
  let ?bye = "\<lparr>pattern = ''bye'', compiled_with = IGNORECASE\<rparr>"
  let ?hello = "\<lparr>pattern = ''hello'', compiled_with = IGNORECASE\<rparr>"
  have cb: "re_compile parse ''bye'' IGNORECASE = Inr ?bye"
    using assms(3) by (rule re_compile_default)
  have ch: "re_compile parse ''hello'' IGNORECASE = Inr ?hello"
    using assms(2) by (rule re_compile_default)
  have L: "metadata_view (?L u) ?F = listen_to_append ?bye (metadata_view u ?F)"
    if "wf_state u" for u
    using listen_to_step[OF that cb] by (simp add: listen_to_default)
  have R: "metadata_view (?R u) ?F = respond_to_append ?hello (metadata_view u ?F)"
    if "wf_state u" for u
    using respond_to_step[OF that ch] by (simp add: respond_to_default)
  have wfL: "wf_state (?L s)" and wfR: "wf_state (?R s)"
    using assms(1) by (rule wf_apply_decorator)+
  have LR: "metadata_view (?L (?R s)) ?F
              = listen_to_append ?bye (respond_to_append ?hello (metadata_view s ?F))"
    by (simp only: L[OF wfR] R[OF assms(1)])
  have RL: "metadata_view (?R (?L s)) ?F
              = respond_to_append ?hello (listen_to_append ?bye (metadata_view s ?F))"
    by (simp only: R[OF wfL] L[OF assms(1)])
  have fresh: "metadata_view s ?F = Metadata_fields" if "\<not> has_metadata s ?F"
    using that by (rule view_undecorated)
  from assms(4) have both:
    "listen_to (plugin_actions (metadata_view t ?F))
       = listen_to (plugin_actions (metadata_view s ?F)) @ [?bye]
     \<and> respond_to (plugin_actions (metadata_view t ?F))
       = respond_to (plugin_actions (metadata_view s ?F)) @ [?hello]
     \<and> process (plugin_actions (metadata_view t ?F)) = process (plugin_actions (metadata_view s ?F))
     \<and> required_settings (metadata_view t ?F) = required_settings (metadata_view s ?F)"
  proof
    assume "t = ?L (?R s)"
    then show ?thesis
      by (simp only: LR listen_to_append_fields respond_to_append_fields simp_thms)
  next
    assume "t = ?R (?L s)"
    then show ?thesis
      by (simp only: RL listen_to_append_fields respond_to_append_fields simp_thms)
  qed
  have single:
    "respond_to (plugin_actions (metadata_view (?L s) ?F)) = respond_to (plugin_actions (metadata_view s ?F))"
    "process (plugin_actions (metadata_view (?L s) ?F)) = process (plugin_actions (metadata_view s ?F))"
    "listen_to (plugin_actions (metadata_view (?R s) ?F)) = listen_to (plugin_actions (metadata_view s ?F))"
    "process (plugin_actions (metadata_view (?R s) ?F)) = process (plugin_actions (metadata_view s ?F))"
    by (simp_all only: L[OF assms(1)] R[OF assms(1)] listen_to_append_fields respond_to_append_fields)
  show ?thesis
    using both single by (simp add: fresh Metadata_fields_empty)
qed

theorem respond_to_listen_to_independent_witness:
  "wf_state module_state \<and> \<not> has_metadata module_state (Function 5)
   \<and> example_parse ''hello'' IGNORECASE = Parsed \<and> example_parse ''bye'' IGNORECASE = Parsed
   \<and> listen_to (plugin_actions (metadata_view
        (snd (apply_decorator example_parse (listen_to_factory ''bye'' None) (Function 5)
           (snd (apply_decorator example_parse (respond_to_factory ''hello'' None) (Function 5)
              module_state)))) (Function 5)))
      = [\<lparr>pattern = ''bye'', compiled_with = 2\<rparr>]
   \<and> respond_to (plugin_actions (metadata_view
        (snd (apply_decorator example_parse (listen_to_factory ''bye'' None) (Function 5)
           (snd (apply_decorator example_parse (respond_to_factory ''hello'' None) (Function 5)
              module_state)))) (Function 5)))
      = [\<lparr>pattern = ''hello'', compiled_with = 2\<rparr>]
   \<and> listen_to (plugin_actions (metadata_view
        (snd (apply_decorator example_parse (respond_to_factory ''hello'' None) (Function 5)
           (snd (apply_decorator example_parse (listen_to_factory ''bye'' None) (Function 5)
              module_state)))) (Function 5)))
      = [\<lparr>pattern = ''bye'', compiled_with = 2\<rparr>]
   \<and> respond_to (plugin_actions (metadata_view
        (snd (apply_decorator example_parse (respond_to_factory ''hello'' None) (Function 5)
           (snd (apply_decorator example_parse (listen_to_factory ''bye'' None) (Function 5)
              module_state)))) (Function 5)))
      = [\<lparr>pattern = ''hello'', compiled_with = 2\<rparr>]"
proof -
  have p: "example_parse ''hello'' IGNORECASE = Parsed" "example_parse ''bye'' IGNORECASE = Parsed"
    by (simp_all add: example_parse_def)
  show ?thesis
    using respond_to_listen_to_independent
          [where s = module_state and parse = example_parse and f = 5
             and t = "snd (apply_decorator example_parse (listen_to_factory ''bye'' None) (Function 5)
                       (snd (apply_decorator example_parse (respond_to_factory ''hello'' None)
                          (Function 5) module_state)))"]
        respond_to_listen_to_independent
          [where s = module_state and parse = example_parse and f = 5
             and t = "snd (apply_decorator example_parse (respond_to_factory ''hello'' None) (Function 5)
                       (snd (apply_decorator example_parse (listen_to_factory ''bye'' None)
                          (Function 5) module_state)))"]
    by (simp add: wf_module_state undecorated_module_state view_undecorated Metadata_fields_empty p)
       (simp add: IGNORECASE_def)
qed

subsection \<open>required_settings\<close>







subsection \<open>A rejected pattern\<close>

lemma rejected_store:
  "settable f \<Longrightarrow> re_compile parse regex flags = Inl e \<Longrightarrow>
   listen_to_decorator parse regex flags f s = (Inl e, attached f s)
   \<and> respond_to_decorator parse regex flags f s = (Inl e, attached f s)"
  by (simp add: listen_to_decorator_eq respond_to_decorator_eq)

lemma attached_first:
  "\<not> has_metadata s (Function f) \<Longrightarrow>
   metadata (funcs (attached (Function f) s) f) = Some (next_ref s)
   \<and> heap (attached (Function f) s) (next_ref s) = Metadata_fields
   \<and> attached (Function f) s \<noteq> s"
proof -
  assume a: "\<not> has_metadata s (Function f)"
  then have r: "metadata (funcs (attached (Function f) s) f) = Some (next_ref s)"
    by (simp add: attached.simps target_ref_def has_metadata_def)
  have h: "heap (attached (Function f) s) (next_ref s) = Metadata_fields"
    by (simp add: heap_attached)
  have "next_ref (attached (Function f) s) \<noteq> next_ref s"
    by (simp add: next_ref_attached)
  then have "attached (Function f) s \<noteq> s"
    by auto
  with r h show ?thesis by simp
qed

lemma attached_again:
  "metadata (funcs s f) = Some a \<Longrightarrow> metadata (funcs (attached (Function f) s) f) = Some a"
  by (simp add: attached.simps target_ref_def)

lemma re_compile_syntax_error:
  "parse regex flags = SyntaxError \<Longrightarrow> re_compile parse regex flags = Inl (ReError regex)"
  by (simp add: re_compile_def)

text \<open>
  C9. When the decorator of \<open>listen_to\<close> or \<open>respond_to\<close> is applied to a function with
  a pattern on which \<open>re.compile\<close> raises (for a pattern that is not a regular
  expression the error is \<open>re.error\<close>), the error leaves a changed store behind: the
  target has its \<open>metadata\<close> attribute afterwards, which for a target without one refers
  to a new, empty \<open>Metadata\<close>, and for a target with one still refers to the same
  instance. The \<open>listen_to\<close> and \<open>respond_to\<close> lists seen through the target are what
  they were.
\<close>

theorem rejected_pattern_not_atomic:
  assumes "wf_state s" and "re_compile parse regex flags = Inl e"
    and "t = snd (apply_decorator parse (ListenToDecorator regex flags) (Function f) s)
       \<or> t = snd (apply_decorator parse (RespondToDecorator regex flags) (Function f) s)"
  shows "fst (apply_decorator parse (ListenToDecorator regex flags) (Function f) s) = Inl e
       \<and> fst (apply_decorator parse (RespondToDecorator regex flags) (Function f) s) = Inl e
       \<and> (parse regex flags = SyntaxError \<longrightarrow> e = ReError regex)
       \<and> has_metadata t (Function f)
       \<and> (\<not> has_metadata s (Function f) \<longrightarrow>
            metadata (funcs t f) = Some (next_ref s) \<and> heap t (next_ref s) = Metadata_fields
            \<and> t \<noteq> s)
       \<and> (\<forall>a. metadata (funcs s f) = Some a \<longrightarrow> metadata (funcs t f) = Some a)
       \<and> listen_to (plugin_actions (metadata_view t (Function f)))
           = listen_to (plugin_actions (metadata_view s (Function f)))
       \<and> respond_to (plugin_actions (metadata_view t (Function f)))
           = respond_to (plugin_actions (metadata_view s (Function f)))
       \<and> metadata_view t (Function f) = metadata_view s (Function f)"
proof -
  note rs = rejected_store[of "Function f" parse regex flags e s]
  have t: "t = attached (Function f) s"
    using assms(2,3) rs by auto
  have err: "fst (apply_decorator parse (ListenToDecorator regex flags) (Function f) s) = Inl e"
            "fst (apply_decorator parse (RespondToDecorator regex flags) (Function f) s) = Inl e"
    using assms(2) rs by simp_all
  have syn: "parse regex flags = SyntaxError \<longrightarrow> e = ReError regex"
    using assms(2) re_compile_syntax_error[of parse regex flags] by auto
  have v: "metadata_view t (Function f) = metadata_view s (Function f)"
    unfolding t using assms(1) by (rule view_attached_function)
  have h: "has_metadata t (Function f)"
    unfolding t by (rule has_metadata_attached) simp
  show ?thesis
    using err syn h attached_first[of s f] attached_again[of s f]
    by (simp add: v) (simp add: t)
qed

theorem rejected_pattern_not_atomic_witness:
  "wf_state module_state \<and> re_compile example_parse ''('' 2 = Inl (ReError ''('')
   \<and> \<not> has_metadata module_state (Function 6)
   \<and> fst (apply_decorator example_parse (ListenToDecorator ''('' 2) (Function 6) module_state)
       = Inl (ReError ''('')
   \<and> has_metadata (snd (apply_decorator example_parse (ListenToDecorator ''('' 2) (Function 6)
        module_state)) (Function 6)
   \<and> metadata (funcs (snd (apply_decorator example_parse (ListenToDecorator ''('' 2) (Function 6)
        module_state)) 6) = Some 0
   \<and> listen_to (plugin_actions (metadata_view
        (snd (apply_decorator example_parse (ListenToDecorator ''('' 2) (Function 6) module_state))
        (Function 6))) = []
   \<and> has_metadata (snd (apply_decorator example_parse (RespondToDecorator ''('' 2) (Function 6)
        module_state)) (Function 6)
   \<and> respond_to (plugin_actions (metadata_view
        (snd (apply_decorator example_parse (RespondToDecorator ''('' 2) (Function 6) module_state))
        (Function 6))) = []"
proof -
  have n: "next_ref module_state = 0"
    by (simp add: module_state_def)
  have c: "re_compile example_parse ''('' 2 = Inl (ReError ''('')"
    by (simp add: re_compile_def example_parse_def)
  show ?thesis
    using rejected_pattern_not_atomic
            [where s = module_state and parse = example_parse and regex = "''(''" and flags = 2
               and f = 6 and e = "ReError ''(''"
               and t = "snd (apply_decorator example_parse (ListenToDecorator ''('' 2) (Function 6)
                         module_state)"]
          rejected_pattern_not_atomic
            [where s = module_state and parse = example_parse and regex = "''(''" and flags = 2
               and f = 6 and e = "ReError ''(''"
               and t = "snd (apply_decorator example_parse (RespondToDecorator ''('' 2) (Function 6)
                         module_state)"]
    by (simp add: wf_module_state undecorated_module_state view_undecorated Metadata_fields_empty
        n c del: apply_decorator.simps)
qed

subsection \<open>on and the event emitter\<close>

lemma on_decorator_store:
  "snd (on_decorator event f s) = s\<lparr>ee := (ee s)(event := ee s event @ [f])\<rparr>"
  by (simp add: on_decorator_def add_listener_def)

text \<open>
  C6. For every function \<open>f\<close> and event name \<open>n\<close>, applying the decorator returned by
  \<open>on(n)\<close> returns \<open>f\<close> and registers \<open>f\<close> for \<open>n\<close> on the module's emitter, after
  the listeners already there; the listeners of other events stay. No function object,
  no class and no \<open>Metadata\<close> changes: \<open>f\<close> gets no \<open>metadata\<close> attribute and keeps its
  other attributes.
\<close>

theorem on_registers_and_returns_target:
  "fst (apply_decorator parse (on_factory n) (Function f) s) = Inr (Function f)
   \<and> funcs (snd (apply_decorator parse (on_factory n) (Function f) s)) = funcs s
   \<and> classes (snd (apply_decorator parse (on_factory n) (Function f) s)) = classes s
   \<and> heap (snd (apply_decorator parse (on_factory n) (Function f) s)) = heap s
   \<and> next_ref (snd (apply_decorator parse (on_factory n) (Function f) s)) = next_ref s
   \<and> has_metadata (snd (apply_decorator parse (on_factory n) (Function f) s)) (Function f)
       = has_metadata s (Function f)
   \<and> metadata (funcs (snd (apply_decorator parse (on_factory n) (Function f) s)) f)
       = metadata (funcs s f)
   \<and> other_attrs (funcs (snd (apply_decorator parse (on_factory n) (Function f) s)) f)
       = other_attrs (funcs s f)
   \<and> ee (snd (apply_decorator parse (on_factory n) (Function f) s))
       = (ee s)(n := ee s n @ [Function f])
   \<and> Function f \<in> set (ee (snd (apply_decorator parse (on_factory n) (Function f) s)) n)"
  by (simp add: on_factory_def on_decorator_store has_metadata_def)
     (simp add: on_decorator_def)

theorem on_registers_and_returns_target_witness:
  "fst (apply_decorator example_parse (on_factory ''shutdown'') (Function 9) module_state)
     = Inr (Function 9)
   \<and> \<not> has_metadata (snd (apply_decorator example_parse (on_factory ''shutdown'') (Function 9)
        module_state)) (Function 9)
   \<and> ee (snd (apply_decorator example_parse (on_factory ''shutdown'') (Function 9) module_state))
        ''shutdown'' = [Function 9]
   \<and> ee (snd (apply_decorator example_parse (on_factory ''shutdown'') (Function 9) module_state))
        ''startup'' = []"
proof -
  have e: "ee module_state = (\<lambda>_. [])"
    by (simp add: module_state_def AsyncIOEventEmitter_def)
  show ?thesis
    using on_registers_and_returns_target
            [where parse = example_parse and n = "''shutdown''" and f = 9 and s = module_state]
    by (simp add: undecorated_module_state e)
qed

lemma ee_apply_decorator:
  "ee (snd (apply_decorator parse d f s)) n =
     ee s n @ (if d = OnDecorator n then [f] else [])"
  by (cases d)
     (auto simp: process_decorator_eq listen_to_decorator_eq respond_to_decorator_eq
        required_settings_decorator_eq on_decorator_store ee_mutate ee_attached
        split: pyvalue.splits sum.splits)

lemma ee_run:
  "ee (run parse ops s) n = ee s n @ map snd (filter (\<lambda>(d, f). d = OnDecorator n) ops)"
proof (induction ops arbitrary: s)
  case Nil
  show ?case by simp
next
  case (Cons op ops)
  obtain d f where op: "op = (d, f)"
    by (cases op)
  show ?case
    by (simp add: op Cons.IH ee_apply_decorator)
qed

text \<open>
  C7. Registrations on the emitter only accumulate. After any sequence of decorations the
  listeners of an event \<open>n\<close> are the earlier ones followed by the targets of the
  applications of \<open>on(n)\<close>, in the order of application: nothing is removed or
  reordered, and the other decorators register nothing. One application of \<open>on(n)\<close>
  to \<open>f\<close> adds one entry for \<open>f\<close> even when \<open>f\<close> is registered already, so a second
  application adds a second entry. Applying \<open>on("shutdown")\<close> to \<open>f\<close> and then to \<open>g\<close>
  appends \<open>f, g\<close>; on the emitter of a freshly imported module the listeners of
  \<open>"shutdown"\<close> are then \<open>[f, g]\<close>.
\<close>

theorem registrations_accumulate:
  "ee (run parse ops s) n = ee s n @ map snd (filter (\<lambda>(d, f). d = OnDecorator n) ops)
   \<and> (\<exists>ys. ee (run parse ops s) n = ee s n @ ys)
   \<and> ee (snd (apply_decorator parse (on_factory n) f s)) n = ee s n @ [f]
   \<and> count_list (ee (snd (apply_decorator parse (on_factory n) f s)) n) f
       = Suc (count_list (ee s n) f)
   \<and> ee (snd (apply_decorator parse (on_factory n) f
         (snd (apply_decorator parse (on_factory n) f s)))) n = ee s n @ [f, f]
   \<and> ee (snd (apply_decorator parse (on_factory ''shutdown'') g
         (snd (apply_decorator parse (on_factory ''shutdown'') f s)))) ''shutdown''
       = ee s ''shutdown'' @ [f, g]
   \<and> ee (snd (apply_decorator parse (on_factory ''shutdown'') g
         (snd (apply_decorator parse (on_factory ''shutdown'') f module_state)))) ''shutdown''
       = [f, g]"
proof -
  have e: "ee module_state ''shutdown'' = []"
    by (simp add: module_state_def AsyncIOEventEmitter_def)
  show ?thesis
    by (simp add: ee_run ee_apply_decorator on_factory_def e del: apply_decorator.simps)
qed

theorem registrations_accumulate_witness:
  "ee (run example_parse
         [(OnDecorator ''shutdown'', Function 1), (ListenToDecorator ''('' 2, Function 1),
          (OnDecorator ''startup'', Function 3), (ProcessDecorator ''message'', Function 2),
          (OnDecorator ''shutdown'', Function 2), (OnDecorator ''shutdown'', Function 1)]
         module_state) ''shutdown'' = [Function 1, Function 2, Function 1]"
proof -
  have e: "ee module_state ''shutdown'' = []"
    by (simp add: module_state_def AsyncIOEventEmitter_def)
  show ?thesis
    using registrations_accumulate
            [where parse = example_parse and s = module_state and n = "''shutdown''"
               and ops = "[(OnDecorator ''shutdown'', Function 1), (ListenToDecorator ''('' 2, Function 1),
                           (OnDecorator ''startup'', Function 3),
                           (ProcessDecorator ''message'', Function 2),
                           (OnDecorator ''shutdown'', Function 2),
                           (OnDecorator ''shutdown'', Function 1)]"]
    by (simp add: e del: run.simps)
qed

subsection \<open>The Metadata of a callable\<close>

















end
